theory Spec2Isabelle
  imports Main "HOL-Library.Word" "HOL-Library.AList"
begin

unbundle bit_operations_syntax

section \<open>Strings as the scripts and the backend see them\<close>

text \<open>
  A string is a list of bytes. The helpers below are the Python and shell primitives the
  sources call: \<open>str(n)\<close>, \<open>int(s)\<close>, \<open>s.split(c)\<close>, \<open>s.replace(a, b)\<close>,
  \<open>s.strip()\<close>, \<open>s.endswith(t)\<close>.
\<close>

definition is_digit :: "char \<Rightarrow> bool" where
  "is_digit c = (48 \<le> (of_char c :: nat) \<and> (of_char c :: nat) \<le> 57)"

definition digit_val :: "char \<Rightarrow> nat" where
  "digit_val c = of_char c - 48"

definition digit_char :: "nat \<Rightarrow> char" where
  "digit_char d = char_of (48 + d)"

text \<open>Decimal rendering of a natural number, as Python's \<open>str\<close> and an f-string give it.\<close>

fun dec :: "nat \<Rightarrow> string" where
  "dec n = (if n < 10 then [digit_char n] else dec (n div 10) @ [digit_char (n mod 10)])"

declare dec.simps [simp del]

definition py_str :: "int \<Rightarrow> string" where
  "py_str i = (if i < 0 then CHR ''-'' # dec (nat (- i)) else dec (nat i))"

text \<open>
  The ASCII characters \<open>str.strip()\<close> removes from both ends: the space, tab to carriage
  return, and the four separators \<open>0x1C\<close> to \<open>0x1F\<close>.
\<close>

definition is_space :: "char \<Rightarrow> bool" where
  "is_space c =
     (c = CHR '' '' \<or> (9 \<le> (of_char c :: nat) \<and> (of_char c :: nat) \<le> 13)
      \<or> (28 \<le> (of_char c :: nat) \<and> (of_char c :: nat) \<le> 31))"

definition strip :: "string \<Rightarrow> string" where
  "strip s = rev (dropWhile is_space (rev (dropWhile is_space s)))"

text \<open>\<open>s.split(c)\<close> for a one-character separator: always at least one field.\<close>

fun split_on :: "char \<Rightarrow> string \<Rightarrow> string list" where
  "split_on c [] = [[]]"
| "split_on c (x # xs) =
     (if x = c then [] # split_on c xs
      else (case split_on c xs of [] \<Rightarrow> [[x]] | w # ws \<Rightarrow> (x # w) # ws))"

text \<open>\<open>s.replace(a, b)\<close> for one-character \<open>a\<close> and \<open>b\<close>.\<close>

definition replace_char :: "char \<Rightarrow> char \<Rightarrow> string \<Rightarrow> string" where
  "replace_char a b s = map (\<lambda>x. if x = a then b else x) s"

definition endswith :: "string \<Rightarrow> string \<Rightarrow> bool" where
  "endswith s t = (length t \<le> length s \<and> drop (length s - length t) s = t)"

definition startswith :: "string \<Rightarrow> string \<Rightarrow> bool" where
  "startswith s t = (take (length t) s = t)"

datatype py_error = ValueError | IndexError | RecursionError

text \<open>
  \<open>int(s)\<close> on an ASCII string: the space and the characters from tab to carriage return
  are skipped at both ends (not the separators \<open>0x1C\<close> to \<open>0x1F\<close>, which only
  \<open>str.strip()\<close> removes), one sign is allowed, then decimal digits, where single
  underscores may separate digits. Anything else raises \<open>ValueError\<close>. Digits outside
  ASCII and the interpreter's limit on the number of digits are not modelled.
\<close>

definition is_c_space :: "char \<Rightarrow> bool" where
  "is_c_space c = (c = CHR '' '' \<or> (9 \<le> (of_char c :: nat) \<and> (of_char c :: nat) \<le> 13))"

definition int_strip :: "string \<Rightarrow> string" where
  "int_strip s = rev (dropWhile is_c_space (rev (dropWhile is_c_space s)))"

fun int_digits :: "nat \<Rightarrow> string \<Rightarrow> nat option" where
  "int_digits acc [] = Some acc"
| "int_digits acc (c # cs) =
     (if is_digit c then int_digits (acc * 10 + digit_val c) cs
      else if c = CHR ''_'' then
        (case cs of
           [] \<Rightarrow> None
         | d # ds \<Rightarrow> if is_digit d then int_digits (acc * 10 + digit_val d) ds else None)
      else None)"

definition int_unsigned :: "string \<Rightarrow> nat option" where
  "int_unsigned s =
     (case s of [] \<Rightarrow> None
      | c # cs \<Rightarrow> if is_digit c then int_digits (digit_val c) cs else None)"

definition py_int :: "string \<Rightarrow> py_error + int" where
  "py_int s =
     (let t = int_strip s in
      case t of
        [] \<Rightarrow> Inl ValueError
      | c # cs \<Rightarrow>
          if c = CHR ''-'' then
            (case int_unsigned cs of None \<Rightarrow> Inl ValueError | Some n \<Rightarrow> Inr (- int n))
          else if c = CHR ''+'' then
            (case int_unsigned cs of None \<Rightarrow> Inl ValueError | Some n \<Rightarrow> Inr (int n))
          else
            (case int_unsigned t of None \<Rightarrow> Inl ValueError | Some n \<Rightarrow> Inr (int n)))"

section \<open>Deployment identity\<close>

subsection \<open>The backend: \<open>deploy_version\<close> in \<open>web-ui/api/versions.py\<close>\<close>

text \<open>
  After the deploy script has returned 0 the endpoint computes the namespace and the URL
  from the request's version string:
  \<^verbatim>\<open>
  namespace = f"n8n-v{request.version.replace('.', '-')}"
  version_parts = request.version.split('.')
  port = 30000 + (int(version_parts[0]) * 100) + int(version_parts[1])
  url = f"http://localhost:{port}"
  \<close>
  \<open>version_parts[1]\<close> raises \<open>IndexError\<close> on a version without a dot, \<open>int\<close> raises
  \<open>ValueError\<close> on a field that is not a number; \<open>version_parts[0]\<close> always exists.
\<close>

record identity =
  namespace :: string
  port :: int
  url :: string

definition deploy_version_identity :: "string \<Rightarrow> py_error + identity" where
  "deploy_version_identity version =
     (let namespace = ''n8n-v'' @ replace_char CHR ''.'' CHR ''-'' version;
          version_parts = split_on CHR ''.'' version
      in case version_parts of
           [] \<Rightarrow> Inl IndexError
         | p0 # rest \<Rightarrow>
             (case py_int p0 of
                Inl e \<Rightarrow> Inl e
              | Inr major \<Rightarrow>
                  (case rest of
                     [] \<Rightarrow> Inl IndexError
                   | p1 # _ \<Rightarrow>
                       (case py_int p1 of
                          Inl e \<Rightarrow> Inl e
                        | Inr minor \<Rightarrow>
                            (let port = 30000 + major * 100 + minor
                             in Inr \<lparr>namespace = namespace, port = port,
                                     url = ''http://localhost:'' @ py_str port\<rparr>)))))"


text \<open>The value of a run of digits read left to right, starting from \<open>acc\<close>.\<close>

definition digits_value :: "nat \<Rightarrow> string \<Rightarrow> nat" where
  "digits_value acc ds = foldl (\<lambda>a c. a * 10 + digit_val c) acc ds"

text \<open>The version string of a triple, as a user types it: \<open>1.85.0\<close>.\<close>

definition version_string :: "nat \<Rightarrow> nat \<Rightarrow> nat \<Rightarrow> string" where
  "version_string major minor patch = dec major @ ''.'' @ dec minor @ ''.'' @ dec patch"

subsection \<open>The deploy script: \<open>scripts/deploy-version.sh\<close>\<close>

text \<open>
  \<open>cksum\<close> is the POSIX checksum utility, not code of this repository. It is modelled
  after the POSIX definition: a CRC over the octets of the input followed by the octets
  of the input's length, least significant first, with generator \<open>0x04C11DB7\<close>, most
  significant bit first, initial value 0, and the result complemented.
\<close>

definition crc_shift :: "32 word \<Rightarrow> 32 word" where
  "crc_shift r = (if bit r 31 then push_bit 1 r XOR 0x04C11DB7 else push_bit 1 r)"

definition crc_octet :: "32 word \<Rightarrow> 8 word \<Rightarrow> 32 word" where
  "crc_octet r b =
     crc_shift (crc_shift (crc_shift (crc_shift (crc_shift (crc_shift (crc_shift (crc_shift
       (r XOR push_bit 24 (ucast b)))))))))"

fun length_octets :: "nat \<Rightarrow> 8 word list" where
  "length_octets n = (if n = 0 then [] else of_nat (n mod 256) # length_octets (n div 256))"

declare length_octets.simps [simp del]

definition cksum :: "string \<Rightarrow> 32 word" where
  "cksum s =
     NOT (foldl crc_octet 0 (map (\<lambda>c. of_nat (of_char c)) s @ length_octets (length s)))"

text \<open>
  \<open>echo -n "$CUSTOM_NAME"\<close> with bash's builtin: an argument made of \<open>-\<close> and one or
  more of the letters \<open>n\<close>, \<open>e\<close>, \<open>E\<close> is taken as an option and prints nothing; any
  other argument is printed as it is.
\<close>

definition is_echo_option :: "string \<Rightarrow> bool" where
  "is_echo_option a =
     (case a of
        [] \<Rightarrow> False
      | c # cs \<Rightarrow> c = CHR ''-'' \<and> cs \<noteq> [] \<and> (\<forall>x \<in> set cs. x \<in> set ''neE''))"

definition echo_n :: "string \<Rightarrow> string" where
  "echo_n a = (if is_echo_option a then [] else a)"

text \<open>Bash arithmetic \<open>$((...))\<close> is signed 64-bit and wraps.\<close>

definition bash_arith :: "int \<Rightarrow> int" where
  "bash_arith x = sint (word_of_int x :: 64 word)"

text \<open>
  \<^verbatim>\<open>
  if [ -n "$CUSTOM_NAME" ]; then
    NAMESPACE="$CUSTOM_NAME"
    RELEASE_NAME="$CUSTOM_NAME"
    PORT=$(echo -n "$CUSTOM_NAME" | cksum | awk '{print 30000 + ($1 % 1000)}')
  else
    NAMESPACE="n8n-v${VERSION_SLUG}"
    RELEASE_NAME="n8n-v${VERSION_SLUG}"
    PORT=$((30000 + (MAJOR * 100) + MINOR))
  fi
  \<close>
  \<open>VERSION_SLUG\<close>, \<open>MAJOR\<close> and \<open>MINOR\<close> are set by the existing part of the script,
  which the implementation plan does not repeat, so they are parameters here.
\<close>

record shell_identity =
  NAMESPACE :: string
  RELEASE_NAME :: string
  PORT :: int

definition derive_identity :: "string \<Rightarrow> string \<Rightarrow> int \<Rightarrow> int \<Rightarrow> shell_identity" where
  "derive_identity CUSTOM_NAME VERSION_SLUG MAJOR MINOR =
     (if CUSTOM_NAME \<noteq> [] then
        \<lparr>NAMESPACE = CUSTOM_NAME, RELEASE_NAME = CUSTOM_NAME,
         PORT = 30000 + int (unat (cksum (echo_n CUSTOM_NAME)) mod 1000)\<rparr>
      else
        \<lparr>NAMESPACE = ''n8n-v'' @ VERSION_SLUG, RELEASE_NAME = ''n8n-v'' @ VERSION_SLUG,
         PORT = bash_arith (30000 + MAJOR * 100 + MINOR)\<rparr>)"

section \<open>Composing the Helm values\<close>

text \<open>
  The values document the backend hands to Helm. A Python \<open>dict\<close> keeps its keys in
  insertion order and an assignment to an existing key keeps the key's place, which is
  what \<open>AList.update\<close> does on an association list. Floating-point scalars are left
  out of the document type.
\<close>

datatype yaml =
    YNull
  | YBool bool
  | YInt int
  | YStr string
  | YSeq "yaml list"
  | YMap "(string \<times> yaml) list"

type_synonym dict = "(string \<times> yaml) list"

text \<open>
  \<^verbatim>\<open>
  def deep_merge(base: dict, override: dict) -> dict:
      result = base.copy()
      for key, value in override.items():
          if key in result and isinstance(result[key], dict) and isinstance(value, dict):
              result[key] = deep_merge(result[key], value)
          else:
              result[key] = value
      return result
  \<close>
  The first argument is \<open>result\<close>, which starts as the copy of \<open>base\<close>; the second is
  what is left of \<open>override.items()\<close>.
\<close>

fun deep_merge :: "dict \<Rightarrow> dict \<Rightarrow> dict" where
  "deep_merge result [] = result"
| "deep_merge result ((key, YMap ov) # rest) =
     deep_merge
       (AList.update key
          (case map_of result key of
             Some (YMap bv) \<Rightarrow> YMap (deep_merge bv ov)
           | _ \<Rightarrow> YMap ov)
          result)
       rest"
| "deep_merge result ((key, v) # rest) = deep_merge (AList.update key v result) rest"

text \<open>
  What one loop iteration stores under \<open>key\<close>: the merge of the two values when both
  are dicts, the override's value otherwise.
\<close>

definition merge_entry :: "yaml option \<Rightarrow> yaml \<Rightarrow> yaml" where
  "merge_entry b v =
     (case (b, v) of (Some (YMap bv), YMap ov) \<Rightarrow> YMap (deep_merge bv ov) | _ \<Rightarrow> v)"

text \<open>The request models of \<open>web-ui/api/versions.py\<close>.\<close>

record EnvVar =
  key :: string
  val :: string  \<comment> \<open>the field \<open>value\<close>\<close>

record ResourceConfig =
  cpu :: "string option"
  memory :: "string option"

record CustomValues =
  envVars :: "EnvVar list option"
  resources :: "ResourceConfig option"
  workerReplicas :: "int option"
  rawYaml :: "string option"

text \<open>
  \<open>yaml.safe_load\<close> belongs to PyYAML, not to this repository: it is a parameter of the
  model. It returns the parsed document, raises the library's \<open>YAMLError\<close>, the one
  exception the source catches, or raises another exception (\<open>ValueError\<close> when a
  scalar that looks like a date is not one, \<open>RecursionError\<close> on deep nesting).
\<close>

datatype load_result = Loaded yaml | YAMLError | OtherError py_error

text \<open>Python's truth value of an optional string: \<open>None\<close> and \<open>""\<close> are false.\<close>

definition nonempty_str :: "string option \<Rightarrow> bool" where
  "nonempty_str s = (case s of None \<Rightarrow> False | Some t \<Rightarrow> t \<noteq> [])"

text \<open>\<open>{ev.key: ev.value for ev in custom.envVars}\<close>: a later duplicate overwrites.\<close>

definition env_dict :: "EnvVar list \<Rightarrow> dict" where
  "env_dict evs = foldl (\<lambda>d ev. AList.update (key ev) (YStr (val ev)) d) [] evs"

text \<open>
  The part of \<open>build_helm_values\<close> before the raw override: environment variables,
  resource limits, worker replicas, in this order.
\<close>

definition limits_dict :: "ResourceConfig \<Rightarrow> dict" where
  "limits_dict r =
     (case cpu r of Some c \<Rightarrow> if c \<noteq> [] then [(''cpu'', YStr c)] else [] | None \<Rightarrow> [])
     @ (case memory r of Some m \<Rightarrow> if m \<noteq> [] then [(''memory'', YStr m)] else [] | None \<Rightarrow> [])"

definition resources_dict :: "ResourceConfig \<Rightarrow> dict" where
  "resources_dict r =
     (if nonempty_str (cpu r) \<or> nonempty_str (memory r)
      then [(''main'', YMap [(''limits'', YMap (limits_dict r))])]
      else [])"

definition structured_values :: "CustomValues \<Rightarrow> dict" where
  "structured_values custom =
     (let values = [];
          values = (case envVars custom of
                      Some evs \<Rightarrow>
                        if evs \<noteq> [] then AList.update ''extraEnv'' (YMap (env_dict evs)) values
                        else values
                    | None \<Rightarrow> values);
          values = (case resources custom of
                      Some r \<Rightarrow>
                        if resources_dict r \<noteq> []
                        then AList.update ''resources'' (YMap (resources_dict r)) values
                        else values
                    | None \<Rightarrow> values);
          values = (case workerReplicas custom of
                      Some n \<Rightarrow> AList.update ''replicas'' (YMap [(''workers'', YInt n)]) values
                    | None \<Rightarrow> values)
      in values)"

text \<open>
  \<^verbatim>\<open>
  if custom.rawYaml:
      try:
          raw_values = yaml.safe_load(custom.rawYaml)
          if isinstance(raw_values, dict):
              values = deep_merge(values, raw_values)
      except yaml.YAMLError:
          pass  # Invalid YAML, ignore
  return values
  \<close>
  An exception that is not a \<open>YAMLError\<close> passes the \<open>except\<close> clause and leaves the
  function; \<open>deploy_version\<close> then answers with a server error instead of deploying.
\<close>

definition build_helm_values ::
  "(string \<Rightarrow> load_result) \<Rightarrow> CustomValues \<Rightarrow> py_error + dict" where
  "build_helm_values safe_load custom =
     (let values = structured_values custom in
      case rawYaml custom of
        None \<Rightarrow> Inr values
      | Some text \<Rightarrow>
          if text = [] then Inr values
          else (case safe_load text of
                  YAMLError \<Rightarrow> Inr values
                | OtherError e \<Rightarrow> Inl e
                | Loaded (YMap raw_values) \<Rightarrow> Inr (deep_merge values raw_values)
                | Loaded _ \<Rightarrow> Inr values))"

text \<open>
  PyYAML at one text: in \<open>a: 2021-02-30\<close> the scalar is resolved as a timestamp, and
  building the date raises \<open>ValueError\<close>, which is not a \<open>YAMLError\<close>. The parser below
  does that at this text and reports a syntax error everywhere else.
\<close>

definition safe_load_invalid_date :: "string \<Rightarrow> load_result" where
  "safe_load_invalid_date t = (if t = ''a: 2021-02-30'' then OtherError ValueError else YAMLError)"

text \<open>Reading a document along a path of keys, as \<open>values['resources']['cpu']\<close> does.\<close>

fun lookup_path :: "yaml \<Rightarrow> string list \<Rightarrow> yaml option" where
  "lookup_path v [] = Some v"
| "lookup_path (YMap m) (k # ks) =
     (case map_of m k of None \<Rightarrow> None | Some v \<Rightarrow> lookup_path v ks)"
| "lookup_path _ (k # ks) = None"

fun is_dict :: "yaml \<Rightarrow> bool" where
  "is_dict (YMap _) = True"
| "is_dict _ = False"

text \<open>A Python \<open>dict\<close> has each key once, at every level of the document.\<close>

fun distinct_keys :: "yaml \<Rightarrow> bool" where
  "distinct_keys (YMap m) = (distinct (map fst m) \<and> (\<forall>v \<in> snd ` set m. distinct_keys v))"
| "distinct_keys (YSeq xs) = (\<forall>v \<in> set xs. distinct_keys v)"
| "distinct_keys _ = True"

section \<open>Custom deployment names\<close>

subsection \<open>The deploy forms: \<open>validateName\<close> and the two \<open>handleDeploy\<close>\<close>

definition is_lower_alnum :: "char \<Rightarrow> bool" where
  "is_lower_alnum c = (is_digit c \<or> (97 \<le> (of_char c :: nat) \<and> (of_char c :: nat) \<le> 122))"





record DeployRequest =
  version :: string
  mode :: string
  isolated_db :: bool
  name :: "string option"
  snapshot :: "string option"





subsection \<open>The backend and the script behind it\<close>


text \<open>
  The flag loop of \<open>deploy-version.sh\<close>, run on the arguments after the version.
  \<open>shift 2\<close> with a single argument left fails; the model stops there.
\<close>

record flags =
  MODE :: string
  ISOLATED_DB :: string
  CUSTOM_NAME :: string
  SNAPSHOT_NAME :: string
  VALUES_FILE :: string







text \<open>A cluster in which no namespace exists yet.\<close>

definition no_namespace :: "string \<Rightarrow> bool" where
  "no_namespace n = False"

section \<open>From a namespace back to a version\<close>

text \<open>
  \<open>re.search(r'n8n-v(\d+)-(\d+)-(\d+)', namespace)\<close>: the leftmost position where the
  pattern matches. At a given position the match is forced: each \<open>\d+\<close> takes the whole
  run of digits in front of it, since a shorter run would be followed by a digit and not
  by the hyphen. Digits are the ASCII digits; namespace names are ASCII.
\<close>

fun strip_prefix :: "string \<Rightarrow> string \<Rightarrow> string option" where
  "strip_prefix [] s = Some s"
| "strip_prefix (p # ps) [] = None"
| "strip_prefix (p # ps) (c # cs) = (if p = c then strip_prefix ps cs else None)"

definition match_here :: "string \<Rightarrow> (string \<times> string \<times> string) option" where
  "match_here s =
     (case strip_prefix ''n8n-v'' s of
        None \<Rightarrow> None
      | Some r1 \<Rightarrow>
          (let g1 = takeWhile is_digit r1 in
           if g1 = [] then None
           else case dropWhile is_digit r1 of
             [] \<Rightarrow> None
           | h1 # r2 \<Rightarrow>
               if h1 \<noteq> CHR ''-'' then None
               else
                 (let g2 = takeWhile is_digit r2 in
                  if g2 = [] then None
                  else case dropWhile is_digit r2 of
                    [] \<Rightarrow> None
                  | h2 # r3 \<Rightarrow>
                      if h2 \<noteq> CHR ''-'' then None
                      else
                        (let g3 = takeWhile is_digit r3 in
                         if g3 = [] then None else Some (g1, g2, g3)))))"

fun re_search :: "string \<Rightarrow> (string \<times> string \<times> string) option" where
  "re_search [] = None"
| "re_search (c # cs) =
     (case match_here (c # cs) of Some m \<Rightarrow> Some m | None \<Rightarrow> re_search cs)"

text \<open>
  \<^verbatim>\<open>
  def parse_deployment_info(namespace: str) -> dict:
      version_match = re.search(r'n8n-v(\d+)-(\d+)-(\d+)', namespace)
      if version_match:
          version = f"{version_match.group(1)}.{version_match.group(2)}.{version_match.group(3)}"
      else:
          try:
              result = subprocess.run(["kubectl", "get", "namespace", namespace, "-o",
                  "jsonpath={.metadata.labels.version}"], capture_output=True, text=True)
              version = result.stdout.strip() or "unknown"
          except:
              version = "unknown"
      return {"namespace": namespace, "version": version}
  \<close>
  \<open>kubectl_label\<close> is the cluster: \<open>None\<close> when running \<open>kubectl\<close> raises, otherwise the
  standard output of the command.
\<close>

record deployment_info =
  info_namespace :: string
  info_version :: string

definition parse_deployment_info :: "(string \<Rightarrow> string option) \<Rightarrow> string \<Rightarrow> deployment_info" where
  "parse_deployment_info kubectl_label ns =
     \<lparr>info_namespace = ns,
      info_version =
        (case re_search ns of
           Some (g1, g2, g3) \<Rightarrow> g1 @ ''.'' @ g2 @ ''.'' @ g3
         | None \<Rightarrow>
             (case kubectl_label ns of
                None \<Rightarrow> ''unknown''
              | Some out \<Rightarrow> if strip out \<noteq> [] then strip out else ''unknown''))\<rparr>"

text \<open>An example cluster: the namespace \<open>acme-prod\<close> carries the label \<open>1.85.0\<close>.\<close>

definition example_labels :: "string \<Rightarrow> string option" where
  "example_labels ns = (if ns = ''acme-prod'' then Some ''1.85.0'' else Some [])"

section \<open>The snapshot store\<close>

subsection \<open>Listing: \<open>scripts/list-snapshots.sh\<close>\<close>

text \<open>
  The store is what \<open>ls -1\<close> prints for the two directories the script lists:
  \<open>/backups/\<close>, where the timestamped dumps are written, and
  \<open>/backups/snapshots/\<close>, where the named ones are. A failing \<open>ls\<close> prints nothing.
\<close>

record snapshot_store =
  backups :: "string list"
  snapshots :: "string list"

definition list_files :: "snapshot_store \<Rightarrow> string \<Rightarrow> string list" where
  "list_files store path =
     (if path = ''/backups/snapshots/'' then snapshots store
      else if path = ''/backups/'' then backups store
      else [])"

text \<open>
  The three filters: \<open>grep '\.sql$'\<close>, \<open>grep '^n8n-.*\.sql$'\<close> and
  \<open>grep -v '\.meta$'\<close>.
\<close>

definition grep_sql :: "string list \<Rightarrow> string list" where
  "grep_sql ls = filter (\<lambda>l. endswith l ''.sql'') ls"

definition grep_n8n_sql :: "string list \<Rightarrow> string list" where
  "grep_n8n_sql ls = filter (\<lambda>l. startswith l ''n8n-'' \<and> endswith (drop 4 l) ''.sql'') ls"

definition grep_v_meta :: "string list \<Rightarrow> string list" where
  "grep_v_meta ls = filter (\<lambda>l. \<not> endswith l ''.meta'') ls"

definition named_snapshots :: "snapshot_store \<Rightarrow> string list" where
  "named_snapshots store = grep_v_meta (grep_sql (list_files store ''/backups/snapshots/''))"

definition automatic_snapshots :: "snapshot_store \<Rightarrow> string list" where
  "automatic_snapshots store = grep_v_meta (grep_n8n_sql (list_files store ''/backups/''))"

text \<open>
  The script's standard output, line by line. \<open>MODE=${1:-all}\<close>: a missing or empty
  argument is \<open>all\<close>, and every argument other than the two flags lists both sections.
\<close>

definition section_lines :: "string list \<Rightarrow> string list" where
  "section_lines found = (if found = [] then [''  (none)''] else map (\<lambda>l. ''  '' @ l) found)"

definition list_snapshots :: "string \<Rightarrow> snapshot_store \<Rightarrow> string list" where
  "list_snapshots arg store =
     (let MODE = (if arg = [] then ''all'' else arg) in
      if MODE = ''--named-only'' then named_snapshots store
      else if MODE = ''--auto-only'' then automatic_snapshots store
      else [''=== Named Snapshots ===''] @ section_lines (named_snapshots store)
           @ ['''', ''=== Timestamped Snapshots ===''] @ section_lines (automatic_snapshots store))"

text \<open>The store of the example: one named snapshot with its sidecar, two timestamped dumps.\<close>

definition example_store :: snapshot_store where
  "example_store =
     \<lparr>backups = [''n8n-20260119-120000-manual.sql'', ''n8n-20260119-130000-pre-v1.85.0.sql'',
                 ''snapshots''],
      snapshots = [''acme.sql'', ''acme.sql.meta'']\<rparr>"

text \<open>The same four names, all in one of the two directories.\<close>

definition all_in_snapshots :: snapshot_store where
  "all_in_snapshots =
     \<lparr>backups = [''snapshots''],
      snapshots = [''acme.sql'', ''acme.sql.meta'', ''n8n-20260119-120000-manual.sql'',
                   ''n8n-20260119-130000-pre-v1.85.0.sql'']\<rparr>"

definition all_in_backups :: snapshot_store where
  "all_in_backups =
     \<lparr>backups = [''acme.sql'', ''acme.sql.meta'', ''n8n-20260119-120000-manual.sql'',
                 ''n8n-20260119-130000-pre-v1.85.0.sql''],
      snapshots = []\<rparr>"

subsection \<open>Creating a named snapshot: \<open>scripts/create-named-snapshot.sh\<close>\<close>

text \<open>The characters of \<open>^[a-zA-Z0-9_-]+$\<close>.\<close>

definition is_label_char :: "char \<Rightarrow> bool" where
  "is_label_char c =
     (is_lower_alnum c \<or> (65 \<le> (of_char c :: nat) \<and> (of_char c :: nat) \<le> 90)
      \<or> c = CHR ''_'' \<or> c = CHR ''-'')"

text \<open>
  The script checks its arguments, then hands a Job to the cluster. The Job's container
  writes the dump to \<open>/backups/snapshots/${NAME}.sql\<close>. Between the checks and the
  \<open>kubectl apply\<close> the script reads nothing from the snapshot directory.
  \<open>namespace_exists\<close> is the cluster's answer to \<open>kubectl get namespace\<close>, \<open>apply_ok\<close>
  whether \<open>kubectl apply\<close> succeeds, \<open>TIMESTAMP\<close> the output of \<open>date\<close>.
\<close>

record snapshot_job =
  job_name :: string
  job_label :: string
  DB_HOST :: string
  DB_NAME :: string
  BACKUP_FILE :: string
  job_source :: string

datatype snapshot_exit =
    UsageError
  | InvalidName
  | NamespaceNotFound string
  | ApplyFailed
  | JobCreated

definition create_named_snapshot ::
  "(string \<Rightarrow> bool) \<Rightarrow> bool \<Rightarrow> string \<Rightarrow> string \<Rightarrow> string
     \<Rightarrow> snapshot_job option \<times> snapshot_exit" where
  "create_named_snapshot namespace_exists apply_ok TIMESTAMP NAME arg2 =
     (let SOURCE = (if arg2 = [] then ''shared'' else arg2) in
      if NAME = [] then (None, UsageError)
      else if \<not> (\<forall>c \<in> set NAME. is_label_char c) then (None, InvalidName)
      else if SOURCE \<noteq> ''shared'' \<and> \<not> namespace_exists SOURCE
        then (None, NamespaceNotFound SOURCE)
      else
        (let job = \<lparr>job_name = ''snapshot-'' @ NAME @ ''-'' @ TIMESTAMP,
                    job_label = NAME,
                    DB_HOST = (if SOURCE = ''shared''
                               then ''postgres.n8n-system.svc.cluster.local''
                               else ''postgres-'' @ SOURCE @ ''.'' @ SOURCE
                                      @ ''.svc.cluster.local''),
                    DB_NAME = ''n8n'',
                    BACKUP_FILE = NAME @ ''.sql'',
                    job_source = SOURCE\<rparr>
         in if apply_ok then (Some job, JobCreated) else (None, ApplyFailed)))"

text \<open>
  The files of \<open>/backups/snapshots/\<close>, by name. The Job's container waits until the
  database answers (\<open>ready_at = None\<close>: it never does, and the Job never gets further),
  then redirects \<open>pg_dump\<close> into the file, which replaces whatever the file held. Under
  \<open>set -e\<close> a failing dump ends the Job with the file holding what was written so far;
  otherwise the sidecar with the name, the creation time, the source and the type
  \<open>named\<close> is written next.
\<close>

datatype file_content =
    SqlDump string
  | Metadata string string string string

datatype dump_result = Dumped string | DumpFailed string

definition run_snapshot_job ::
  "snapshot_job \<Rightarrow> nat option \<Rightarrow> dump_result \<Rightarrow> string
     \<Rightarrow> (string \<times> file_content) list \<Rightarrow> (string \<times> file_content) list option" where
  "run_snapshot_job job ready_at dump created files =
     (case ready_at of
        None \<Rightarrow> None
      | Some polls \<Rightarrow>
          (case dump of
             DumpFailed partial \<Rightarrow> Some (AList.update (BACKUP_FILE job) (SqlDump partial) files)
           | Dumped d \<Rightarrow>
               Some (AList.update (BACKUP_FILE job @ ''.meta'')
                       (Metadata (job_label job) created (job_source job) ''named'')
                       (AList.update (BACKUP_FILE job) (SqlDump d) files))))"

text \<open>A snapshot directory that already holds the named snapshot \<open>acme\<close>.\<close>

definition acme_files :: "(string \<times> file_content) list" where
  "acme_files =
     [(''acme.sql'', SqlDump ''old dump''),
      (''acme.sql.meta'', Metadata ''acme'' ''2026-01-19T12:00:00Z'' ''shared'' ''named'')]"

section \<open>Removing a deployment\<close>

subsection \<open>\<open>scripts/wait-for-namespace-deletion.sh\<close>\<close>

text \<open>
  The cluster is the sequence of answers to \<open>kubectl get namespace\<close>: \<open>exists_at k\<close> is
  the answer to the \<open>k\<close>-th call, counted from 0. The result records the exit status, the
  number of calls and of two-second sleeps, and the lines printed.
\<close>

datatype wait_msg =
    Usage
  | DoesNotExist
  | Waiting
  | StillWaiting nat
  | FullyDeleted
  | StillExists nat

record wait_result =
  exit_status :: nat
  kubectl_calls :: nat
  sleeps :: nat
  printed :: "wait_msg list"

definition MAX_WAIT :: nat where
  "MAX_WAIT = 120"

function wait_loop :: "(nat \<Rightarrow> bool) \<Rightarrow> nat \<Rightarrow> nat \<Rightarrow> nat \<Rightarrow> wait_msg list \<Rightarrow> wait_result" where
  "wait_loop exists_at calls slept ELAPSED out =
     (if ELAPSED < MAX_WAIT then
        (if \<not> exists_at calls then
           \<lparr>exit_status = 0, kubectl_calls = calls + 1, sleeps = slept,
            printed = out @ [FullyDeleted]\<rparr>
         else
           wait_loop exists_at (calls + 1) (slept + 1) (ELAPSED + 2)
             (if (ELAPSED + 2) mod 10 = 0 then out @ [StillWaiting (ELAPSED + 2)] else out))
      else
        \<lparr>exit_status = 1, kubectl_calls = calls, sleeps = slept,
         printed = out @ [StillExists MAX_WAIT]\<rparr>)"
  by pat_completeness auto
termination
  by (relation "measure (\<lambda>(exists_at, calls, slept, ELAPSED, out). MAX_WAIT - ELAPSED)") auto

declare wait_loop.simps [simp del]

definition wait_for_namespace_deletion :: "(nat \<Rightarrow> bool) \<Rightarrow> string \<Rightarrow> wait_result" where
  "wait_for_namespace_deletion exists_at ns =
     (if ns = [] then
        \<lparr>exit_status = 1, kubectl_calls = 0, sleeps = 0, printed = [Usage]\<rparr>
      else if \<not> exists_at 0 then
        \<lparr>exit_status = 0, kubectl_calls = 1, sleeps = 0, printed = [DoesNotExist]\<rparr>
      else wait_loop exists_at 1 0 0 [Waiting])"

subsection \<open>\<open>scripts/remove-version.sh\<close>\<close>

text \<open>
  Modelled from the spec: \<open>scripts/remove-version.sh\<close>, which the endpoint
  \<open>remove_version\<close> runs and whose text the repository's files do not contain. The
  specification says:
  \<open>remove(namespace) -> Success | Fails(NotFound)\<close> deletes the namespace and waits,
  bounded, for full removal confirmation before reporting success; on a namespace that
  never existed it returns \<open>Fails(NotFound)\<close> without invoking any wait loop; on timeout
  it reports \<open>Fails(StillTerminating)\<close>. The wait is the script above, run on what the
  cluster answers after the deletion was requested.
\<close>

datatype remove_error = NotFound | StillTerminating

datatype remove_result = Success | Fails remove_error

definition remove :: "(nat \<Rightarrow> bool) \<Rightarrow> string \<Rightarrow> remove_result \<times> wait_result option" where
  "remove exists_at ns =
     (if \<not> exists_at 0 then (Fails NotFound, None)
      else
        (let w = wait_for_namespace_deletion (\<lambda>k. exists_at (Suc k)) ns
         in (if exit_status w = 0 then Success else Fails StillTerminating, Some w)))"

section \<open>The backend's calls to the scripts\<close>

text \<open>
  \<open>subprocess.run\<close> is the operating system: a parameter that, given the call, either
  raises (\<open>Inl\<close> the exception's text) or returns the completed process. Every endpoint
  returns the calls it made together with its answer.
\<close>

record subprocess_call =
  argv :: "string list"
  cwd :: string
  input :: "string option"

record completed_process =
  returncode :: int
  stdout :: string
  stderr :: string

record api_response =
  success :: bool
  message :: string
  error :: "string option"
  script_output :: string

datatype endpoint_result = Returned api_response | HTTPException nat string

text \<open>
  \<^verbatim>\<open>
  @router.post("/restore")
  async def restore_snapshot(request: RestoreRequest):
      try:
          result = subprocess.run(
              ["/workspace/scripts/restore-snapshot.sh", request.snapshot],
              capture_output=True, text=True, cwd="/workspace",
              input="yes\n"  # Auto-confirm the restore
          )
          if result.returncode != 0:
              return {"success": False, "message": "Restore failed",
                      "error": result.stderr, "output": result.stdout}
          return {"success": True, "message": f"Snapshot {request.snapshot} restored",
                  "output": result.stdout}
      except Exception as e:
          raise HTTPException(status_code=500, detail=str(e))
  \<close>
  The request has the one field \<open>snapshot\<close>.
\<close>

definition restore_call :: "string \<Rightarrow> subprocess_call" where
  "restore_call snapshot_name =
     \<lparr>argv = [''/workspace/scripts/restore-snapshot.sh'', snapshot_name],
      cwd = ''/workspace'',
      input = Some (''yes'' @ [CHR 0x0A])\<rparr>"

definition restore_snapshot ::
  "(subprocess_call \<Rightarrow> string + completed_process) \<Rightarrow> string
     \<Rightarrow> subprocess_call list \<times> endpoint_result" where
  "restore_snapshot run snapshot_name =
     ([restore_call snapshot_name],
      case run (restore_call snapshot_name) of
        Inl e \<Rightarrow> HTTPException 500 e
      | Inr result \<Rightarrow>
          if returncode result \<noteq> 0 then
            Returned \<lparr>success = False, message = ''Restore failed'',
                      error = Some (stderr result), script_output = stdout result\<rparr>
          else
            Returned \<lparr>success = True,
                      message = ''Snapshot '' @ snapshot_name @ '' restored'',
                      error = None, script_output = stdout result\<rparr>)"

text \<open>
  \<open>remove_version\<close> of \<open>web-ui/api/versions.py\<close>: it runs \<open>remove-version.sh\<close> and
  reports a failure for every non-zero exit status, whatever the reason.
\<close>

definition remove_call :: "string \<Rightarrow> subprocess_call" where
  "remove_call v =
     \<lparr>argv = [''/workspace/scripts/remove-version.sh'', v], cwd = ''/workspace'', input = None\<rparr>"

definition remove_version ::
  "(subprocess_call \<Rightarrow> string + completed_process) \<Rightarrow> string
     \<Rightarrow> subprocess_call list \<times> endpoint_result" where
  "remove_version run v =
     ([remove_call v],
      case run (remove_call v) of
        Inl e \<Rightarrow> HTTPException 500 e
      | Inr result \<Rightarrow>
          if returncode result \<noteq> 0 then
            Returned \<lparr>success = False, message = ''Removal failed'',
                      error = Some (stderr result), script_output = stdout result\<rparr>
          else
            Returned \<lparr>success = True, message = ''Version '' @ v @ '' removed'',
                      error = None, script_output = stdout result\<rparr>)"

text \<open>Example clusters and processes for the concrete instances below.\<close>

definition never_existed :: "nat \<Rightarrow> bool" where
  "never_existed k = False"

definition script_succeeds :: "subprocess_call \<Rightarrow> string + completed_process" where
  "script_succeeds c = Inr \<lparr>returncode = 0, stdout = ''Restore complete'', stderr = []\<rparr>"


section \<open>Properties\<close>

subsection \<open>Decimal strings\<close>



lemma is_digit_digit_char: "d < 10 \<Longrightarrow> is_digit (digit_char d)"
  by (simp add: is_digit_def digit_char_def)

lemma digit_val_digit_char: "d < 10 \<Longrightarrow> digit_val (digit_char d) = d"
  by (simp add: digit_val_def digit_char_def)

lemma digit_char_numerals:
  "digit_char 0 = CHR ''0''" "digit_char 1 = CHR ''1''" "digit_char 2 = CHR ''2''"
  "digit_char 3 = CHR ''3''" "digit_char 4 = CHR ''4''" "digit_char 5 = CHR ''5''"
  "digit_char 6 = CHR ''6''" "digit_char 7 = CHR ''7''" "digit_char 8 = CHR ''8''"
  "digit_char 9 = CHR ''9''" "digit_char (Suc 0) = CHR ''1''"
  by code_simp+

lemma dec_digits: "\<forall>c \<in> set (dec n). is_digit c"
proof (induction n rule: dec.induct)
  case (1 n)
  show ?case
  proof (cases "n < 10")
    case True
    then show ?thesis by (subst dec.simps) (simp add: is_digit_digit_char)
  next
    case False
    with 1 show ?thesis by (subst dec.simps) (simp add: is_digit_digit_char)
  qed
qed

lemma dec_nonempty: "dec n \<noteq> []"
  by (subst dec.simps) simp

lemma int_digits_all: "\<forall>c \<in> set ds. is_digit c \<Longrightarrow> int_digits acc ds = Some (digits_value acc ds)"
  by (induction ds arbitrary: acc) (simp_all add: digits_value_def)

lemma digits_value_dec: "digits_value 0 (dec n) = n"
proof (induction n rule: dec.induct)
  case (1 n)
  show ?case
  proof (cases "n < 10")
    case True
    then show ?thesis by (subst dec.simps) (simp add: digits_value_def digit_val_digit_char)
  next
    case False
    with 1 have "digits_value 0 (dec (n div 10)) = n div 10" by simp
    with False show ?thesis
      by (subst dec.simps) (simp add: digits_value_def digit_val_digit_char)
  qed
qed

lemma int_unsigned_dec: "int_unsigned (dec n) = Some n"
proof -
  obtain c cs where d: "dec n = c # cs" using dec_nonempty by (cases "dec n") auto
  have dig: "\<forall>x \<in> set (c # cs). is_digit x" using dec_digits[of n] d by simp
  have "int_unsigned (c # cs) = int_digits (digit_val c) cs" using dig by (simp add: int_unsigned_def)
  also have "\<dots> = Some (digits_value (digit_val c) cs)" using dig by (simp add: int_digits_all)
  also have "digits_value (digit_val c) cs = digits_value 0 (c # cs)" by (simp add: digits_value_def)
  finally show ?thesis using d digits_value_dec[of n] by simp
qed

lemma digit_not_space: "is_digit c \<Longrightarrow> \<not> is_c_space c"
  by (auto simp: is_digit_def is_c_space_def)

lemma digit_not_special: "is_digit c \<Longrightarrow> c \<noteq> CHR ''-'' \<and> c \<noteq> CHR ''+'' \<and> c \<noteq> CHR ''.''"
  by (auto simp: is_digit_def)

lemma dropWhile_none: "\<forall>c \<in> set s. \<not> P c \<Longrightarrow> dropWhile P s = s"
  by (cases s) auto

lemma int_strip_no_space: "\<forall>c \<in> set s. \<not> is_c_space c \<Longrightarrow> int_strip s = s"
  by (simp add: int_strip_def dropWhile_none)

lemma int_strip_dec: "int_strip (dec n) = dec n"
  using dec_digits[of n] by (intro int_strip_no_space) (auto dest: digit_not_space)

lemma py_int_dec: "py_int (dec n) = Inr (int n)"
proof -
  obtain c cs where d: "dec n = c # cs" using dec_nonempty by (cases "dec n") auto
  then have "is_digit c" using dec_digits[of n] by simp
  then have "c \<noteq> CHR ''-''" "c \<noteq> CHR ''+''" using digit_not_special by auto
  then show ?thesis using d int_unsigned_dec[of n] int_strip_dec[of n]
    by (simp add: py_int_def)
qed

lemma split_on_no_sep: "c \<notin> set s \<Longrightarrow> split_on c s = [s]"
  by (induction s) auto

lemma split_on_append: "c \<notin> set a \<Longrightarrow> split_on c (a @ c # r) = a # split_on c r"
  by (induction a) auto

lemma dot_notin_dec: "CHR ''.'' \<notin> set (dec n)"
  using dec_digits[of n] digit_not_special by blast

lemma replace_char_append: "replace_char a b (s @ t) = replace_char a b s @ replace_char a b t"
  by (simp add: replace_char_def)

lemma replace_char_absent: "a \<notin> set s \<Longrightarrow> replace_char a b s = s"
  by (induction s) (auto simp: replace_char_def)

lemma py_str_nat: "py_str (int n) = dec n"
  by (simp add: py_str_def)


lemma split_version: "split_on CHR ''.'' (version_string a b c) = [dec a, dec b, dec c]"
  by (simp add: version_string_def split_on_append split_on_no_sep dot_notin_dec)

lemma replace_version: "replace_char CHR ''.'' CHR ''-'' (version_string a b c) = dec a @ ''-'' @ dec b @ ''-'' @ dec c"
proof -
  have sep: "replace_char CHR ''.'' CHR ''-'' ''.'' = ''-''" by (simp add: replace_char_def)
  show ?thesis
    unfolding version_string_def replace_char_append sep
    by (simp add: replace_char_absent dot_notin_dec)
qed

lemma deploy_version_identity_triple:
  "deploy_version_identity (version_string a b c) =
     Inr \<lparr>namespace = ''n8n-v'' @ dec a @ ''-'' @ dec b @ ''-'' @ dec c,
          port = 30000 + int a * 100 + int b,
          url = ''http://localhost:'' @ dec (30000 + a * 100 + b)\<rparr>"
proof -
  have "py_str (30000 + int a * 100 + int b) = dec (30000 + a * 100 + b)"
    using py_str_nat[of "30000 + a * 100 + b"] by simp
  then show ?thesis
    by (simp add: deploy_version_identity_def split_version replace_version py_int_dec Let_def)
qed

lemma bash_arith_in_range: "- (2 ^ 63) \<le> x \<Longrightarrow> x < 2 ^ 63 \<Longrightarrow> bash_arith x = x"
  unfolding bash_arith_def by (simp add: sint_sbintrunc' signed_take_bit_int_eq_self)

subsection \<open>Identity of a deployment\<close>

text \<open>
  C1. For every version triple deployed without a custom name, the backend derives the
  namespace \<open>n8n-v{major}-{minor}-{patch}\<close> and the port \<open>30000 + major*100 + minor\<close>
  from the version string, and the deploy script, given the slug and the two numbers,
  derives the same namespace, the same release name and (as long as the sum fits the
  shell's 64-bit arithmetic) the same port. Version 1.85.0 gives \<open>n8n-v1-85-0\<close> and
  30185.
\<close>

theorem auto_identity_from_version:
  fixes major minor patch :: nat
  shows
    "deploy_version_identity (version_string major minor patch) =
       Inr \<lparr>namespace = ''n8n-v'' @ dec major @ ''-'' @ dec minor @ ''-'' @ dec patch,
            port = 30000 + int major * 100 + int minor,
            url = ''http://localhost:'' @ dec (30000 + major * 100 + minor)\<rparr>
     \<and> (30000 + int major * 100 + int minor < 2 ^ 63 \<longrightarrow>
          derive_identity [] (dec major @ ''-'' @ dec minor @ ''-'' @ dec patch)
              (int major) (int minor) =
            \<lparr>NAMESPACE = ''n8n-v'' @ dec major @ ''-'' @ dec minor @ ''-'' @ dec patch,
             RELEASE_NAME = ''n8n-v'' @ dec major @ ''-'' @ dec minor @ ''-'' @ dec patch,
             PORT = 30000 + int major * 100 + int minor\<rparr>)
     \<and> deploy_version_identity ''1.85.0'' =
          Inr \<lparr>namespace = ''n8n-v1-85-0'', port = 30185, url = ''http://localhost:30185''\<rparr>
     \<and> derive_identity [] ''1-85-0'' 1 85 =
          \<lparr>NAMESPACE = ''n8n-v1-85-0'', RELEASE_NAME = ''n8n-v1-85-0'', PORT = 30185\<rparr>"
proof (intro conjI impI)
  show "deploy_version_identity (version_string major minor patch) =
       Inr \<lparr>namespace = ''n8n-v'' @ dec major @ ''-'' @ dec minor @ ''-'' @ dec patch,
            port = 30000 + int major * 100 + int minor,
            url = ''http://localhost:'' @ dec (30000 + major * 100 + minor)\<rparr>"
    by (rule deploy_version_identity_triple)
next
  assume "30000 + int major * 100 + int minor < 2 ^ 63"
  then have "bash_arith (30000 + int major * 100 + int minor) = 30000 + int major * 100 + int minor"
    by (intro bash_arith_in_range) simp_all
  then show "derive_identity [] (dec major @ ''-'' @ dec minor @ ''-'' @ dec patch)
              (int major) (int minor) =
            \<lparr>NAMESPACE = ''n8n-v'' @ dec major @ ''-'' @ dec minor @ ''-'' @ dec patch,
             RELEASE_NAME = ''n8n-v'' @ dec major @ ''-'' @ dec minor @ ''-'' @ dec patch,
             PORT = 30000 + int major * 100 + int minor\<rparr>"
    by (simp add: derive_identity_def)
next
  show "deploy_version_identity ''1.85.0'' =
          Inr \<lparr>namespace = ''n8n-v1-85-0'', port = 30185, url = ''http://localhost:30185''\<rparr>"
    using deploy_version_identity_triple [of 1 85 0]
    by (simp add: version_string_def dec.simps digit_char_numerals)
next
  have "bash_arith 30185 = 30185" by (intro bash_arith_in_range) simp_all
  then show "derive_identity [] ''1-85-0'' 1 85 =
          \<lparr>NAMESPACE = ''n8n-v1-85-0'', RELEASE_NAME = ''n8n-v1-85-0'', PORT = 30185\<rparr>"
    by (simp add: derive_identity_def)
qed

theorem auto_identity_from_version_witness:
  "deploy_version_identity ''2.1.0'' =
     Inr \<lparr>namespace = ''n8n-v2-1-0'', port = 30201, url = ''http://localhost:30201''\<rparr>
   \<and> derive_identity [] ''2-1-0'' 2 1 =
     \<lparr>NAMESPACE = ''n8n-v2-1-0'', RELEASE_NAME = ''n8n-v2-1-0'', PORT = 30201\<rparr>"
  using auto_identity_from_version [of 2 1 0]
  by (simp add: version_string_def dec.simps digit_char_numerals)

text \<open>
  C2. For every custom name the script's port is 30000 plus the POSIX checksum of what
  \<open>echo -n\<close> prints for the name, reduced modulo 1000; it lies between 30000 and 30999,
  and it depends on the name alone: deriving it again, with whatever version, gives the
  same identity. A name that does not start with a hyphen is hashed as it is.
\<close>

theorem custom_name_port:
  assumes "custom_name \<noteq> []"
  shows
    "PORT (derive_identity custom_name slug major minor) =
       30000 + int (unat (cksum (echo_n custom_name)) mod 1000)
     \<and> 30000 \<le> PORT (derive_identity custom_name slug major minor)
     \<and> PORT (derive_identity custom_name slug major minor) \<le> 30999
     \<and> NAMESPACE (derive_identity custom_name slug major minor) = custom_name
     \<and> RELEASE_NAME (derive_identity custom_name slug major minor) = custom_name
     \<and> derive_identity custom_name slug' major' minor' = derive_identity custom_name slug major minor
     \<and> (hd custom_name \<noteq> CHR ''-'' \<longrightarrow> echo_n custom_name = custom_name)"
proof -
  have "unat (cksum (echo_n custom_name)) mod 1000 < 1000" by simp
  then have "int (unat (cksum (echo_n custom_name)) mod 1000) \<le> 999" by linarith
  moreover have "hd custom_name \<noteq> CHR ''-'' \<longrightarrow> echo_n custom_name = custom_name"
    using assms by (cases custom_name) (simp_all add: echo_n_def is_echo_option_def)
  ultimately show ?thesis using assms by (simp add: derive_identity_def)
qed

theorem custom_name_port_witness:
  "PORT (derive_identity ''test-acme'' ''1-85-0'' 1 85) = 30983
   \<and> derive_identity ''test-acme'' ''2-1-0'' 2 1 = derive_identity ''test-acme'' ''1-85-0'' 1 85
   \<and> echo_n ''test-acme'' = ''test-acme''"
proof -
  have ne: "''test-acme'' \<noteq> []" by simp
  have "cksum ''test-acme'' = 1022460983"
    by (simp add: cksum_def crc_octet_def crc_shift_def length_octets.simps)
  then have v: "int (unat (cksum ''test-acme'') mod 1000) = 983" by simp
  show ?thesis
    using custom_name_port [OF ne, of "''1-85-0''" 1 85 "''2-1-0''" 2 1] v by simp
qed

subsection \<open>Composing the Helm values\<close>

lemma deep_merge_step:
  "deep_merge result ((k, v) # rest) =
     deep_merge (AList.update k (merge_entry (map_of result k) v) result) rest"
  by (cases v) (auto simp: merge_entry_def split: option.splits yaml.splits)

lemma map_of_deep_merge_other:
  "k \<notin> fst ` set ov \<Longrightarrow> map_of (deep_merge b ov) k = map_of b k"
proof (induction ov arbitrary: b)
  case Nil
  then show ?case by simp
next
  case (Cons p ov)
  obtain k' v where p: "p = (k', v)" by (cases p)
  with Cons.prems have "k \<noteq> k'" "k \<notin> fst ` set ov" by auto
  then show ?case
    unfolding p deep_merge_step by (simp add: Cons.IH update_conv')
qed

lemma map_of_deep_merge_key:
  "distinct (map fst ov) \<Longrightarrow> map_of ov k = Some v \<Longrightarrow>
     map_of (deep_merge b ov) k = Some (merge_entry (map_of b k) v)"
proof (induction ov arbitrary: b)
  case Nil
  then show ?case by simp
next
  case (Cons p ov)
  obtain k' v' where p: "p = (k', v')" by (cases p)
  show ?case
  proof (cases "k = k'")
    case True
    with Cons.prems p have "v' = v" "k \<notin> fst ` set ov" by auto
    then show ?thesis
      unfolding p deep_merge_step using True
      by (simp add: map_of_deep_merge_other update_conv')
  next
    case False
    with Cons.prems p have "distinct (map fst ov)" "map_of ov k = Some v" by auto
    then show ?thesis
      unfolding p deep_merge_step using False
      by (simp add: Cons.IH update_conv')
  qed
qed

lemma lookup_path_deep_merge:
  "distinct_keys (YMap raw) \<Longrightarrow> lookup_path (YMap raw) p = Some v \<Longrightarrow> \<not> is_dict v \<Longrightarrow>
     lookup_path (YMap (deep_merge base raw)) p = Some v"
proof (induction p arbitrary: base raw)
  case Nil
  then show ?case by auto
next
  case (Cons k ks)
  from Cons.prems(2) obtain v1 where v1: "map_of raw k = Some v1" "lookup_path v1 ks = Some v"
    by (auto split: option.splits)
  from Cons.prems(1) have d: "distinct (map fst raw)" by simp
  from v1(1) have "v1 \<in> snd ` set raw" by (force dest: map_of_SomeD)
  with Cons.prems(1) have dv1: "distinct_keys v1" by auto
  have m: "map_of (deep_merge base raw) k = Some (merge_entry (map_of base k) v1)"
    using d v1(1) by (rule map_of_deep_merge_key)
  show ?case
  proof (cases "\<exists>bv ov. map_of base k = Some (YMap bv) \<and> v1 = YMap ov")
    case True
    then obtain bv ov where b: "map_of base k = Some (YMap bv)" "v1 = YMap ov" by blast
    have "lookup_path (YMap (deep_merge bv ov)) ks = Some v"
      using dv1 v1(2) Cons.prems(3) unfolding b(2) by (rule Cons.IH)
    then show ?thesis using m b by (simp add: merge_entry_def)
  next
    case False
    then have "merge_entry (map_of base k) v1 = v1"
      by (auto simp: merge_entry_def split: option.splits yaml.splits)
    then show ?thesis using m v1(2) by simp
  qed
qed

lemma structured_values_rawYaml [simp]:
  "structured_values (custom\<lparr>rawYaml := r\<rparr>) = structured_values custom"
  by (simp add: structured_values_def)

text \<open>
  C3. When the raw override parses to a mapping, \<open>build_helm_values\<close> returns the deep
  merge of that mapping over the values built from the structured fields: every key of
  the raw mapping ends up holding the raw value, merged with the structured value only
  where both are mappings, and so every leaf of the raw document is found unchanged at
  the same path of the result. With the structured CPU limit 500m and the raw document
  \<open>{resources: {cpu: 250m}}\<close> the result holds 250m at \<open>resources.cpu\<close>; the
  structured limit sits at \<open>resources.main.limits.cpu\<close>, a different path, and stays.
\<close>

theorem raw_override_wins:
  assumes "rawYaml custom = Some text" and "text \<noteq> []"
    and "safe_load text = Loaded (YMap raw)" and "distinct_keys (YMap raw)"
  shows
    "\<exists>vals. build_helm_values safe_load custom = Inr vals
     \<and> vals = deep_merge (structured_values custom) raw
     \<and> (\<forall>k v. map_of raw k = Some v \<longrightarrow>
            map_of vals k = Some (merge_entry (map_of (structured_values custom) k) v))
     \<and> (\<forall>p v. lookup_path (YMap raw) p = Some v \<and> \<not> is_dict v \<longrightarrow>
            lookup_path (YMap vals) p = Some v)
     \<and> (envVars custom = None
          \<and> resources custom = Some \<lparr>cpu = Some ''500m'', memory = None\<rparr>
          \<and> workerReplicas custom = None
          \<and> raw = [(''resources'', YMap [(''cpu'', YStr ''250m'')])] \<longrightarrow>
            lookup_path (YMap vals) [''resources'', ''cpu''] = Some (YStr ''250m'')
            \<and> vals =
                [(''resources'',
                  YMap [(''main'', YMap [(''limits'', YMap [(''cpu'', YStr ''500m'')])]),
                        (''cpu'', YStr ''250m'')])])"
proof -
  define vals where "vals = deep_merge (structured_values custom) raw"
  have eq: "build_helm_values safe_load custom = Inr vals"
    using assms(1-3) by (simp add: build_helm_values_def vals_def)
  have keys: "\<forall>k v. map_of raw k = Some v \<longrightarrow>
      map_of vals k = Some (merge_entry (map_of (structured_values custom) k) v)"
    using assms(4) unfolding vals_def by (simp add: map_of_deep_merge_key)
  have leaves: "\<forall>p v. lookup_path (YMap raw) p = Some v \<and> \<not> is_dict v \<longrightarrow>
      lookup_path (YMap vals) p = Some v"
    using assms(4) unfolding vals_def by (blast intro: lookup_path_deep_merge)
  have example: "envVars custom = None
          \<and> resources custom = Some \<lparr>cpu = Some ''500m'', memory = None\<rparr>
          \<and> workerReplicas custom = None
          \<and> raw = [(''resources'', YMap [(''cpu'', YStr ''250m'')])] \<longrightarrow>
            lookup_path (YMap vals) [''resources'', ''cpu''] = Some (YStr ''250m'')
            \<and> vals =
                [(''resources'',
                  YMap [(''main'', YMap [(''limits'', YMap [(''cpu'', YStr ''500m'')])]),
                        (''cpu'', YStr ''250m'')])]"
    unfolding vals_def
    by (simp add: structured_values_def resources_dict_def limits_dict_def nonempty_str_def)
  from eq keys leaves example vals_def show ?thesis by blast
qed

theorem raw_override_wins_witness:
  "build_helm_values
     (\<lambda>t. Loaded (YMap [(''resources'', YMap [(''cpu'', YStr ''250m'')])]))
     \<lparr>envVars = None, resources = Some \<lparr>cpu = Some ''500m'', memory = None\<rparr>,
      workerReplicas = None, rawYaml = Some ''resources: {cpu: 250m}''\<rparr>
   = Inr [(''resources'',
           YMap [(''main'', YMap [(''limits'', YMap [(''cpu'', YStr ''500m'')])]),
                 (''cpu'', YStr ''250m'')])]
   \<and> lookup_path
        (YMap [(''resources'',
                YMap [(''main'', YMap [(''limits'', YMap [(''cpu'', YStr ''500m'')])]),
                      (''cpu'', YStr ''250m'')])])
        [''resources'', ''cpu''] = Some (YStr ''250m'')"
proof -
  let ?custom = "\<lparr>envVars = None, resources = Some \<lparr>cpu = Some ''500m'', memory = None\<rparr>,
                  workerReplicas = None, rawYaml = Some ''resources: {cpu: 250m}''\<rparr>"
  let ?raw = "[(''resources'', YMap [(''cpu'', YStr ''250m'')])]"
  have a: "rawYaml ?custom = Some ''resources: {cpu: 250m}''" by simp
  have b: "''resources: {cpu: 250m}'' \<noteq> []" by simp
  have c: "(\<lambda>t. Loaded (YMap ?raw)) ''resources: {cpu: 250m}'' = Loaded (YMap ?raw)" by simp
  have d: "distinct_keys (YMap ?raw)" by simp
  from raw_override_wins [OF a b c d]
  obtain vals where
    v: "build_helm_values (\<lambda>t. Loaded (YMap ?raw)) ?custom = Inr vals"
    and ex: "envVars ?custom = None
          \<and> resources ?custom = Some \<lparr>cpu = Some ''500m'', memory = None\<rparr>
          \<and> workerReplicas ?custom = None
          \<and> ?raw = [(''resources'', YMap [(''cpu'', YStr ''250m'')])] \<longrightarrow>
            lookup_path (YMap vals) [''resources'', ''cpu''] = Some (YStr ''250m'')
            \<and> vals =
                [(''resources'',
                  YMap [(''main'', YMap [(''limits'', YMap [(''cpu'', YStr ''500m'')])]),
                        (''cpu'', YStr ''250m'')])]"
    by blast
  from ex have "lookup_path (YMap vals) [''resources'', ''cpu''] = Some (YStr ''250m'')"
    and "vals =
                [(''resources'',
                  YMap [(''main'', YMap [(''limits'', YMap [(''cpu'', YStr ''500m'')])]),
                        (''cpu'', YStr ''250m'')])]"
    by simp_all
  with v show ?thesis by simp
qed

text \<open>
  What the \<open>except\<close> clause and the \<open>isinstance\<close> test do catch: when the parser raises
  \<open>YAMLError\<close> on the raw text, or returns something that is not a mapping, the result
  is the document built from the structured fields alone, as without any raw text.
\<close>

lemma caught_raw_override_ignored:
  assumes "safe_load text = YAMLError \<or> (\<exists>v. safe_load text = Loaded v \<and> \<not> is_dict v)"
  shows "build_helm_values safe_load (custom\<lparr>rawYaml := Some text\<rparr>)
           = Inr (structured_values custom)"
    and "build_helm_values safe_load (custom\<lparr>rawYaml := None\<rparr>)
           = Inr (structured_values custom)"
proof -
  show "build_helm_values safe_load (custom\<lparr>rawYaml := None\<rparr>) = Inr (structured_values custom)"
    by (simp add: build_helm_values_def)
  from assms show "build_helm_values safe_load (custom\<lparr>rawYaml := Some text\<rparr>)
      = Inr (structured_values custom)"
  proof
    assume "safe_load text = YAMLError"
    then show ?thesis by (simp add: build_helm_values_def Let_def)
  next
    assume "\<exists>v. safe_load text = Loaded v \<and> \<not> is_dict v"
    then obtain v where "safe_load text = Loaded v" "\<not> is_dict v" by blast
    then show ?thesis by (cases v) (simp_all add: build_helm_values_def Let_def)
  qed
qed

text \<open>
  C4 does not hold of the code. The raw text \<open>a: 2021-02-30\<close> makes the parser raise
  \<open>ValueError\<close>; \<open>build_helm_values\<close> catches \<open>YAMLError\<close> only, so the exception
  leaves the function and no values document is returned, although the same request
  without the raw text composes.
\<close>

theorem uncaught_parser_error_fails_compose:
  "build_helm_values safe_load_invalid_date
     \<lparr>envVars = None, resources = Some \<lparr>cpu = Some ''500m'', memory = None\<rparr>,
      workerReplicas = Some 2, rawYaml = Some ''a: 2021-02-30''\<rparr>
   = Inl ValueError
   \<and> build_helm_values safe_load_invalid_date
     \<lparr>envVars = None, resources = Some \<lparr>cpu = Some ''500m'', memory = None\<rparr>,
      workerReplicas = Some 2, rawYaml = None\<rparr>
   = Inr [(''resources'', YMap [(''main'', YMap [(''limits'', YMap [(''cpu'', YStr ''500m'')])])]),
          (''replicas'', YMap [(''workers'', YInt 2)])]"
  by (simp add: build_helm_values_def safe_load_invalid_date_def structured_values_def
      resources_dict_def limits_dict_def nonempty_str_def)

subsection \<open>Custom deployment names\<close>






subsection \<open>From a namespace back to a version\<close>

lemma hyphen_not_digit: "\<not> is_digit CHR ''-''"
  by (simp add: is_digit_def)

lemma takeWhile_digits_dec: "takeWhile is_digit (dec n @ CHR ''-'' # r) = dec n"
  using dec_digits[of n] by (simp add: takeWhile_append2 hyphen_not_digit)

lemma dropWhile_digits_dec: "dropWhile is_digit (dec n @ CHR ''-'' # r) = CHR ''-'' # r"
  using dec_digits[of n] by (simp add: dropWhile_append2 hyphen_not_digit)

lemma takeWhile_digits_dec_end: "takeWhile is_digit (dec n) = dec n"
  using dec_digits[of n] by (simp add: takeWhile_eq_all_conv)

lemma match_here_auto:
  "match_here (''n8n-v'' @ dec a @ ''-'' @ dec b @ ''-'' @ dec c) = Some (dec a, dec b, dec c)"
  by (simp add: match_here_def takeWhile_digits_dec dropWhile_digits_dec
      takeWhile_digits_dec_end dec_nonempty Let_def)

lemma re_search_auto:
  "re_search (''n8n-v'' @ dec a @ ''-'' @ dec b @ ''-'' @ dec c) = Some (dec a, dec b, dec c)"
  using match_here_auto[of a b c] by simp

text \<open>
  C7. \<open>parse_deployment_info\<close> first searches the namespace name for
  \<open>n8n-v{digits}-{digits}-{digits}\<close> and, when that matches, builds the version from
  the three groups without asking the cluster. Only when the name does not match does it
  read the namespace's version label, and when that gives nothing (the command fails to
  run or prints only whitespace) the version is the marker \<open>unknown\<close>. A namespace the
  deploy script generated gives back the version it was generated from.
\<close>

theorem version_of_namespace:
  "info_namespace (parse_deployment_info kubectl_label ns) = ns
   \<and> (\<forall>g1 g2 g3. re_search ns = Some (g1, g2, g3) \<longrightarrow>
         info_version (parse_deployment_info kubectl_label ns) = g1 @ ''.'' @ g2 @ ''.'' @ g3)
   \<and> (re_search ns = None \<longrightarrow>
         (\<forall>out. kubectl_label ns = Some out \<and> strip out \<noteq> [] \<longrightarrow>
            info_version (parse_deployment_info kubectl_label ns) = strip out)
         \<and> (kubectl_label ns = None \<or> (\<exists>out. kubectl_label ns = Some out \<and> strip out = []) \<longrightarrow>
            info_version (parse_deployment_info kubectl_label ns) = ''unknown''))
   \<and> info_version (parse_deployment_info kubectl_label
         (''n8n-v'' @ dec major @ ''-'' @ dec minor @ ''-'' @ dec patch))
       = version_string major minor patch"
proof (intro conjI allI impI)
  show "info_namespace (parse_deployment_info kubectl_label ns) = ns"
    by (simp add: parse_deployment_info_def)
next
  fix g1 g2 g3
  assume "re_search ns = Some (g1, g2, g3)"
  then show "info_version (parse_deployment_info kubectl_label ns) = g1 @ ''.'' @ g2 @ ''.'' @ g3"
    by (simp add: parse_deployment_info_def)
next
  fix out
  assume "re_search ns = None" "kubectl_label ns = Some out \<and> strip out \<noteq> []"
  then show "info_version (parse_deployment_info kubectl_label ns) = strip out"
    by (simp add: parse_deployment_info_def)
next
  assume "re_search ns = None"
    "kubectl_label ns = None \<or> (\<exists>out. kubectl_label ns = Some out \<and> strip out = [])"
  then show "info_version (parse_deployment_info kubectl_label ns) = ''unknown''"
    by (auto simp: parse_deployment_info_def)
next
  show "info_version (parse_deployment_info kubectl_label
         (''n8n-v'' @ dec major @ ''-'' @ dec minor @ ''-'' @ dec patch))
       = version_string major minor patch"
    using re_search_auto [of major minor patch]
    by (simp add: parse_deployment_info_def version_string_def)
qed

theorem version_of_namespace_witness:
  "info_version (parse_deployment_info example_labels ''n8n-v1-85-0'') = ''1.85.0''
   \<and> info_version (parse_deployment_info example_labels ''acme-prod'') = ''1.85.0''
   \<and> info_version (parse_deployment_info example_labels ''acme-test'') = ''unknown''"
proof -
  have m: "re_search ''n8n-v1-85-0'' = Some (''1'', ''85'', ''0'')"
    by (simp add: match_here_def is_digit_def)
  have n1: "re_search ''acme-prod'' = None" and n2: "re_search ''acme-test'' = None"
    by (simp_all add: match_here_def is_digit_def)
  have s: "strip ''1.85.0'' = ''1.85.0''" "strip [] = []"
    by (simp_all add: strip_def is_space_def)
  from version_of_namespace [of example_labels "''n8n-v1-85-0''"]
    version_of_namespace [of example_labels "''acme-prod''"]
    version_of_namespace [of example_labels "''acme-test''"]
  show ?thesis
    unfolding m n1 n2
    by (simp add: s example_labels_def del: re_search.simps)
qed

subsection \<open>The snapshot store\<close>

lemma endswith_last:
  "endswith l (t @ [c]) \<Longrightarrow> l \<noteq> [] \<and> last l = c"
proof -
  assume a: "endswith l (t @ [c])"
  then have d: "drop (length l - length (t @ [c])) l = t @ [c]" and
    n: "length (t @ [c]) \<le> length l"
    by (simp_all add: endswith_def)
  from n have ne: "l \<noteq> []" by auto
  from n have "last (drop (length l - length (t @ [c])) l) = last l"
    by (intro last_drop) simp
  with d ne show ?thesis by simp
qed

lemma sql_line_last: "endswith l ''.sql'' \<Longrightarrow> l \<noteq> [] \<and> last l = CHR ''l''"
  using endswith_last [of l "''.sq''" "CHR ''l''"] by simp

lemma meta_line_last: "endswith l ''.meta'' \<Longrightarrow> last l = CHR ''a''"
  using endswith_last [of l "''.met''" "CHR ''a''"] by simp

lemma n8n_sql_line_last:
  assumes "endswith (drop 4 l) ''.sql''"
  shows "l \<noteq> [] \<and> last l = CHR ''l''"
proof -
  from assms have d: "drop 4 l \<noteq> []" and "last (drop 4 l) = CHR ''l''"
    using sql_line_last by blast+
  moreover from d have "last (drop 4 l) = last l" by (intro last_drop) simp
  ultimately show ?thesis by auto
qed

lemma named_last: "l \<in> set (named_snapshots store) \<Longrightarrow> l \<noteq> [] \<and> last l = CHR ''l''"
  by (auto simp: named_snapshots_def grep_v_meta_def grep_sql_def dest: sql_line_last)

lemma automatic_last: "l \<in> set (automatic_snapshots store) \<Longrightarrow> l \<noteq> [] \<and> last l = CHR ''l''"
  by (auto simp: automatic_snapshots_def grep_v_meta_def grep_n8n_sql_def dest: n8n_sql_line_last)

lemma section_lines_not_meta:
  assumes "\<forall>l \<in> set found. l \<noteq> [] \<and> last l = CHR ''l''" and "x \<in> set (section_lines found)"
  shows "\<not> endswith x ''.meta''"
proof (cases "found = []")
  case True
  with assms(2) show ?thesis by (simp add: section_lines_def endswith_def)
next
  case False
  with assms(2) obtain l where "l \<in> set found" "x = ''  '' @ l"
    by (auto simp: section_lines_def)
  with assms(1) have "last x = CHR ''l''" by simp
  then show ?thesis using meta_line_last [of x] by auto
qed

lemma grep_named:
  "named_snapshots store = filter (\<lambda>l. endswith l ''.sql'') (snapshots store)"
proof -
  have "(endswith l ''.sql'' \<and> \<not> endswith l ''.meta'') = endswith l ''.sql''" for l
    using sql_line_last [of l] meta_line_last [of l] by auto
  then show ?thesis
    by (simp add: named_snapshots_def list_files_def grep_sql_def grep_v_meta_def)
qed

lemma grep_automatic:
  "automatic_snapshots store =
     filter (\<lambda>l. startswith l ''n8n-'' \<and> endswith (drop 4 l) ''.sql'') (backups store)"
proof -
  have "((startswith l ''n8n-'' \<and> endswith (drop 4 l) ''.sql'') \<and> \<not> endswith l ''.meta'')
      = (startswith l ''n8n-'' \<and> endswith (drop 4 l) ''.sql'')" for l
    using n8n_sql_line_last [of l] meta_line_last [of l] by auto
  then show ?thesis
    by (simp add: automatic_snapshots_def list_files_def grep_n8n_sql_def grep_v_meta_def)
qed

text \<open>
  C8, as the specification states it, fails on the code: which section a file is listed
  in depends on the directory it is in, and a store holding the four files is not
  enough to say what is listed. With all four in \<open>/backups/snapshots/\<close> the full listing
  shows three named snapshots, the two timestamped dumps among them, and no automatic
  one; with all four in \<open>/backups/\<close> it shows no named snapshot at all.
\<close>

theorem listing_splits_by_directory:
  "list_snapshots [] all_in_snapshots =
     [''=== Named Snapshots ==='', ''  acme.sql'', ''  n8n-20260119-120000-manual.sql'',
      ''  n8n-20260119-130000-pre-v1.85.0.sql'', [], ''=== Timestamped Snapshots ==='',
      ''  (none)'']
   \<and> list_snapshots [] all_in_backups =
     [''=== Named Snapshots ==='', ''  (none)'', [], ''=== Timestamped Snapshots ==='',
      ''  n8n-20260119-120000-manual.sql'', ''  n8n-20260119-130000-pre-v1.85.0.sql'']"
  by (simp add: list_snapshots_def all_in_snapshots_def all_in_backups_def named_snapshots_def
      automatic_snapshots_def list_files_def grep_sql_def grep_n8n_sql_def grep_v_meta_def
      section_lines_def endswith_def startswith_def)

text \<open>
  C8, amended. In every store the named snapshots are the names ending in \<open>.sql\<close> in
  \<open>/backups/snapshots/\<close> and the automatic ones the names of the form \<open>n8n-*.sql\<close> in
  \<open>/backups/\<close>, in the order \<open>ls\<close> gives them: the two flags list one of the two,
  every other argument lists both under their headings, and no listed line ends in
  \<open>.meta\<close>. The listing is a function of the file names in the two directories alone.
  With \<open>acme.sql\<close> and its sidecar in \<open>/backups/snapshots/\<close> and the two timestamped
  dumps in \<open>/backups/\<close> the full listing shows \<open>acme.sql\<close> as the one named snapshot
  and the two dumps as the automatic ones.
\<close>

theorem snapshot_listing:
  "list_snapshots ''--named-only'' store = filter (\<lambda>l. endswith l ''.sql'') (snapshots store)
   \<and> list_snapshots ''--auto-only'' store =
       filter (\<lambda>l. startswith l ''n8n-'' \<and> endswith (drop 4 l) ''.sql'') (backups store)
   \<and> (arg \<noteq> ''--named-only'' \<and> arg \<noteq> ''--auto-only'' \<longrightarrow>
        list_snapshots arg store =
          [''=== Named Snapshots ==='']
          @ (if filter (\<lambda>l. endswith l ''.sql'') (snapshots store) = [] then [''  (none)'']
             else map (\<lambda>l. ''  '' @ l) (filter (\<lambda>l. endswith l ''.sql'') (snapshots store)))
          @ [[], ''=== Timestamped Snapshots ==='']
          @ (if filter (\<lambda>l. startswith l ''n8n-'' \<and> endswith (drop 4 l) ''.sql'')
                  (backups store) = [] then [''  (none)'']
             else map (\<lambda>l. ''  '' @ l)
                    (filter (\<lambda>l. startswith l ''n8n-'' \<and> endswith (drop 4 l) ''.sql'')
                       (backups store))))
   \<and> (\<forall>l \<in> set (list_snapshots arg store). \<not> endswith l ''.meta'')
   \<and> list_snapshots [] example_store =
     [''=== Named Snapshots ==='', ''  acme.sql'', [], ''=== Timestamped Snapshots ==='',
      ''  n8n-20260119-120000-manual.sql'', ''  n8n-20260119-130000-pre-v1.85.0.sql'']"
proof (intro conjI ballI impI)
  show "list_snapshots ''--named-only'' store
      = filter (\<lambda>l. endswith l ''.sql'') (snapshots store)"
    by (simp add: list_snapshots_def grep_named)
next
  show "list_snapshots ''--auto-only'' store =
       filter (\<lambda>l. startswith l ''n8n-'' \<and> endswith (drop 4 l) ''.sql'') (backups store)"
    by (simp add: list_snapshots_def grep_automatic)
next
  assume a: "arg \<noteq> ''--named-only'' \<and> arg \<noteq> ''--auto-only''"
  have m: "(if arg = [] then ''all'' else arg) \<noteq> ''--named-only''"
      "(if arg = [] then ''all'' else arg) \<noteq> ''--auto-only''"
    using a by auto
  show "list_snapshots arg store =
          [''=== Named Snapshots ==='']
          @ (if filter (\<lambda>l. endswith l ''.sql'') (snapshots store) = [] then [''  (none)'']
             else map (\<lambda>l. ''  '' @ l) (filter (\<lambda>l. endswith l ''.sql'') (snapshots store)))
          @ [[], ''=== Timestamped Snapshots ==='']
          @ (if filter (\<lambda>l. startswith l ''n8n-'' \<and> endswith (drop 4 l) ''.sql'')
                  (backups store) = [] then [''  (none)'']
             else map (\<lambda>l. ''  '' @ l)
                    (filter (\<lambda>l. startswith l ''n8n-'' \<and> endswith (drop 4 l) ''.sql'')
                       (backups store)))"
    unfolding list_snapshots_def Let_def section_lines_def grep_named grep_automatic
    using m by simp
next
  fix l
  assume l: "l \<in> set (list_snapshots arg store)"
  let ?MODE = "if arg = [] then ''all'' else arg"
  have nm: "\<forall>x \<in> set (named_snapshots store). x \<noteq> [] \<and> last x = CHR ''l''"
    using named_last by blast
  have au: "\<forall>x \<in> set (automatic_snapshots store). x \<noteq> [] \<and> last x = CHR ''l''"
    using automatic_last by blast
  consider (named) "?MODE = ''--named-only''"
    | (auto_only) "?MODE \<noteq> ''--named-only''" "?MODE = ''--auto-only''"
    | (all) "?MODE \<noteq> ''--named-only''" "?MODE \<noteq> ''--auto-only''"
    by blast
  then show "\<not> endswith l ''.meta''"
  proof cases
    case named
    with l have "l \<in> set (named_snapshots store)" by (simp add: list_snapshots_def)
    then show ?thesis using named_last meta_line_last by fastforce
  next
    case auto_only
    with l have "l \<in> set (automatic_snapshots store)" by (simp add: list_snapshots_def)
    then show ?thesis using automatic_last meta_line_last by fastforce
  next
    case all
    with l have "l = ''=== Named Snapshots ==='' \<or> l \<in> set (section_lines (named_snapshots store))
        \<or> l = [] \<or> l = ''=== Timestamped Snapshots ===''
        \<or> l \<in> set (section_lines (automatic_snapshots store))"
      by (auto simp: list_snapshots_def)
    then show ?thesis
      using section_lines_not_meta [OF nm] section_lines_not_meta [OF au]
      by (auto simp: endswith_def)
  qed
next
  show "list_snapshots [] example_store =
     [''=== Named Snapshots ==='', ''  acme.sql'', [], ''=== Timestamped Snapshots ==='',
      ''  n8n-20260119-120000-manual.sql'', ''  n8n-20260119-130000-pre-v1.85.0.sql'']"
    by (simp add: list_snapshots_def example_store_def named_snapshots_def
        automatic_snapshots_def list_files_def grep_sql_def grep_n8n_sql_def grep_v_meta_def
        section_lines_def endswith_def startswith_def)
qed

theorem snapshot_listing_witness:
  "list_snapshots ''all'' example_store =
     [''=== Named Snapshots ==='', ''  acme.sql'', [], ''=== Timestamped Snapshots ==='',
      ''  n8n-20260119-120000-manual.sql'', ''  n8n-20260119-130000-pre-v1.85.0.sql'']
   \<and> list_snapshots ''--named-only'' example_store = [''acme.sql'']
   \<and> ''  acme.sql'' \<in> set (list_snapshots ''all'' example_store)
   \<and> \<not> endswith ''  acme.sql'' ''.meta''
   \<and> ''acme.sql.meta'' \<in> set (snapshots example_store)"
proof -
  note t = snapshot_listing [of example_store "''all''"]
  have a: "''all'' \<noteq> ''--named-only'' \<and> ''all'' \<noteq> ''--auto-only''" by simp
  from t a have lines: "list_snapshots ''all'' example_store =
     [''=== Named Snapshots ==='', ''  acme.sql'', [], ''=== Timestamped Snapshots ==='',
      ''  n8n-20260119-120000-manual.sql'', ''  n8n-20260119-130000-pre-v1.85.0.sql'']"
    by (simp add: example_store_def endswith_def startswith_def)
  from t have named: "list_snapshots ''--named-only'' example_store = [''acme.sql'']"
    by (simp add: example_store_def endswith_def)
  from t have no_meta: "\<forall>l \<in> set (list_snapshots ''all'' example_store). \<not> endswith l ''.meta''"
    by blast
  have mem: "''  acme.sql'' \<in> set (list_snapshots ''all'' example_store)"
    unfolding lines by simp
  with no_meta have "\<not> endswith ''  acme.sql'' ''.meta''" by blast
  moreover have "''acme.sql.meta'' \<in> set (snapshots example_store)"
    by (simp add: example_store_def)
  ultimately show ?thesis using lines named mem by blast
qed

text \<open>
  C6, as the specification states it, fails on the code: \<open>create-named-snapshot.sh\<close>
  never looks whether the label is taken. With the named snapshot \<open>acme\<close> in the
  catalog, creating \<open>acme\<close> again passes the checks, the Job is created, and its dump
  replaces \<open>acme.sql\<close> and the sidecar.
\<close>

theorem duplicate_label_overwrites:
  "''acme.sql'' \<in> set (named_snapshots \<lparr>backups = [], snapshots = map fst acme_files\<rparr>)
   \<and> create_named_snapshot no_namespace True ''20260120-090000'' ''acme'' [] =
       (Some \<lparr>job_name = ''snapshot-acme-20260120-090000'', job_label = ''acme'',
              DB_HOST = ''postgres.n8n-system.svc.cluster.local'', DB_NAME = ''n8n'',
              BACKUP_FILE = ''acme.sql'', job_source = ''shared''\<rparr>,
        JobCreated)
   \<and> run_snapshot_job
         \<lparr>job_name = ''snapshot-acme-20260120-090000'', job_label = ''acme'',
          DB_HOST = ''postgres.n8n-system.svc.cluster.local'', DB_NAME = ''n8n'',
          BACKUP_FILE = ''acme.sql'', job_source = ''shared''\<rparr>
         (Some 0) (Dumped ''new dump'') ''2026-01-20T09:00:00Z'' acme_files =
       Some [(''acme.sql'', SqlDump ''new dump''),
             (''acme.sql.meta'', Metadata ''acme'' ''2026-01-20T09:00:00Z'' ''shared'' ''named'')]"
  by (simp add: named_snapshots_def list_files_def grep_sql_def grep_v_meta_def endswith_def
      acme_files_def create_named_snapshot_def is_label_char_def is_lower_alnum_def
      is_digit_def run_snapshot_job_def)

text \<open>
  C6, amended. The script checks the label and, for a namespace source, that the
  namespace exists, before it submits the Job: an empty label, an invalid label or a
  missing source namespace ends it with no Job. It makes no check for an existing
  snapshot of that label: for a valid label and a reachable source it submits the Job
  for \<open>{label}.sql\<close>, which exists when \<open>kubectl apply\<close> succeeds, and once the
  database answers a successful dump is what \<open>{label}.sql\<close> holds afterwards, whatever
  the directory held before.
\<close>

theorem named_snapshot_creation:
  "(NAME = [] \<longrightarrow>
      create_named_snapshot namespace_exists apply_ok TIMESTAMP NAME arg2 = (None, UsageError))
   \<and> (NAME \<noteq> [] \<and> \<not> (\<forall>c \<in> set NAME. is_label_char c) \<longrightarrow>
      create_named_snapshot namespace_exists apply_ok TIMESTAMP NAME arg2 = (None, InvalidName))
   \<and> (NAME \<noteq> [] \<and> (\<forall>c \<in> set NAME. is_label_char c)
        \<and> arg2 \<noteq> [] \<and> arg2 \<noteq> ''shared'' \<and> \<not> namespace_exists arg2 \<longrightarrow>
      create_named_snapshot namespace_exists apply_ok TIMESTAMP NAME arg2
        = (None, NamespaceNotFound arg2))
   \<and> (NAME \<noteq> [] \<and> (\<forall>c \<in> set NAME. is_label_char c)
        \<and> (arg2 = [] \<or> arg2 = ''shared'' \<or> namespace_exists arg2) \<longrightarrow>
        (\<exists>job. BACKUP_FILE job = NAME @ ''.sql''
             \<and> create_named_snapshot namespace_exists apply_ok TIMESTAMP NAME arg2
                 = (if apply_ok then (Some job, JobCreated) else (None, ApplyFailed))
             \<and> (\<forall>files d created polls.
                   \<exists>files'. run_snapshot_job job (Some polls) (Dumped d) created files
                              = Some files'
                     \<and> map_of files' (NAME @ ''.sql'') = Some (SqlDump d))))"
proof (intro conjI impI)
  assume "NAME = []"
  then show "create_named_snapshot namespace_exists apply_ok TIMESTAMP NAME arg2
      = (None, UsageError)"
    by (simp add: create_named_snapshot_def)
next
  assume "NAME \<noteq> [] \<and> \<not> (\<forall>c \<in> set NAME. is_label_char c)"
  then show "create_named_snapshot namespace_exists apply_ok TIMESTAMP NAME arg2
      = (None, InvalidName)"
    by (auto simp: create_named_snapshot_def Let_def)
next
  assume "NAME \<noteq> [] \<and> (\<forall>c \<in> set NAME. is_label_char c)
        \<and> arg2 \<noteq> [] \<and> arg2 \<noteq> ''shared'' \<and> \<not> namespace_exists arg2"
  then show "create_named_snapshot namespace_exists apply_ok TIMESTAMP NAME arg2
        = (None, NamespaceNotFound arg2)"
    by (simp add: create_named_snapshot_def Let_def)
next
  assume a: "NAME \<noteq> [] \<and> (\<forall>c \<in> set NAME. is_label_char c)
        \<and> (arg2 = [] \<or> arg2 = ''shared'' \<or> namespace_exists arg2)"
  define SOURCE where "SOURCE = (if arg2 = [] then ''shared'' else arg2)"
  define job where "job =
    \<lparr>job_name = ''snapshot-'' @ NAME @ ''-'' @ TIMESTAMP, job_label = NAME,
     DB_HOST = (if SOURCE = ''shared'' then ''postgres.n8n-system.svc.cluster.local''
                else ''postgres-'' @ SOURCE @ ''.'' @ SOURCE @ ''.svc.cluster.local''),
     DB_NAME = ''n8n'', BACKUP_FILE = NAME @ ''.sql'', job_source = SOURCE\<rparr>"
  from a have src: "\<not> (SOURCE \<noteq> ''shared'' \<and> \<not> namespace_exists SOURCE)"
    by (auto simp: SOURCE_def)
  have c: "create_named_snapshot namespace_exists apply_ok TIMESTAMP NAME arg2
            = (if apply_ok then (Some job, JobCreated) else (None, ApplyFailed))"
    using a src unfolding create_named_snapshot_def job_def SOURCE_def Let_def by auto
  have b: "BACKUP_FILE job = NAME @ ''.sql''" by (simp add: job_def)
  have sep: "NAME @ ''.sql.meta'' \<noteq> NAME @ ''.sql''" by simp
  have r: "\<exists>files'. run_snapshot_job job (Some polls) (Dumped d) created files = Some files'
             \<and> map_of files' (NAME @ ''.sql'') = Some (SqlDump d)" for files d created polls
    using sep by (simp add: run_snapshot_job_def b update_conv')
  from c b r show "\<exists>job. BACKUP_FILE job = NAME @ ''.sql''
             \<and> create_named_snapshot namespace_exists apply_ok TIMESTAMP NAME arg2
                 = (if apply_ok then (Some job, JobCreated) else (None, ApplyFailed))
             \<and> (\<forall>files d created polls.
                   \<exists>files'. run_snapshot_job job (Some polls) (Dumped d) created files
                              = Some files'
                     \<and> map_of files' (NAME @ ''.sql'') = Some (SqlDump d))"
    by blast
qed

theorem named_snapshot_creation_witness:
  "create_named_snapshot no_namespace True ''20260120-090000'' ''my snapshot'' []
     = (None, InvalidName)
   \<and> create_named_snapshot no_namespace True ''20260120-090000'' ''acme'' ''n8n-v1-25-0''
     = (None, NamespaceNotFound ''n8n-v1-25-0'')
   \<and> (\<exists>job. create_named_snapshot no_namespace True ''20260120-090000'' ''acme'' []
              = (Some job, JobCreated)
          \<and> BACKUP_FILE job = ''acme.sql''
          \<and> (\<exists>files'. run_snapshot_job job (Some 0) (Dumped ''new dump'')
                          ''2026-01-20T09:00:00Z'' acme_files = Some files'
                \<and> map_of files' ''acme.sql'' = Some (SqlDump ''new dump'')))"
proof -
  have bad: "''my snapshot'' \<noteq> [] \<and> \<not> (\<forall>c \<in> set ''my snapshot''. is_label_char c)"
    by (simp add: is_label_char_def is_lower_alnum_def is_digit_def)
  have lbl: "''acme'' \<noteq> [] \<and> (\<forall>c \<in> set ''acme''. is_label_char c)"
    by (simp add: is_label_char_def is_lower_alnum_def is_digit_def)
  have miss: "''acme'' \<noteq> [] \<and> (\<forall>c \<in> set ''acme''. is_label_char c)
        \<and> ''n8n-v1-25-0'' \<noteq> [] \<and> ''n8n-v1-25-0'' \<noteq> ''shared''
        \<and> \<not> no_namespace ''n8n-v1-25-0''"
    using lbl by (simp add: no_namespace_def)
  have good: "''acme'' \<noteq> [] \<and> (\<forall>c \<in> set ''acme''. is_label_char c)
        \<and> (([]::string) = [] \<or> ([]::string) = ''shared'' \<or> no_namespace [])"
    using lbl by simp
  from named_snapshot_creation
        [of "''my snapshot''" no_namespace True "''20260120-090000''" "[]"] bad
  have one: "create_named_snapshot no_namespace True ''20260120-090000'' ''my snapshot'' []
      = (None, InvalidName)"
    by blast
  from named_snapshot_creation
        [of "''acme''" no_namespace True "''20260120-090000''" "''n8n-v1-25-0''"] miss
  have two: "create_named_snapshot no_namespace True ''20260120-090000'' ''acme''
      ''n8n-v1-25-0'' = (None, NamespaceNotFound ''n8n-v1-25-0'')"
    by blast
  from named_snapshot_creation
        [of "''acme''" no_namespace True "''20260120-090000''" "[]"] good
  obtain job where j: "BACKUP_FILE job = ''acme'' @ ''.sql''"
      "create_named_snapshot no_namespace True ''20260120-090000'' ''acme'' []
         = (if True then (Some job, JobCreated) else (None, ApplyFailed))"
      "\<forall>files d created polls.
         \<exists>files'. run_snapshot_job job (Some polls) (Dumped d) created files = Some files'
           \<and> map_of files' (''acme'' @ ''.sql'') = Some (SqlDump d)"
    by blast
  from j(3) have "\<exists>files'. run_snapshot_job job (Some 0) (Dumped ''new dump'')
                          ''2026-01-20T09:00:00Z'' acme_files = Some files'
                \<and> map_of files' (''acme'' @ ''.sql'') = Some (SqlDump ''new dump'')"
    by blast
  with one two j(1,2) show ?thesis by auto
qed

subsection \<open>Removing a deployment\<close>

text \<open>
  C9. Removing a namespace that does not exist fails with \<open>NotFound\<close> and runs no wait.
  In the scripts at hand: the wait script, called on a namespace that does not exist, leaves at
  its first check with one \<open>kubectl\<close> call, no sleep and no turn of the polling loop; and
  the endpoint reports every non-zero exit of the removal script as a failed removal.
\<close>

theorem remove_missing_namespace:
  assumes "\<not> exists_at 0"
  shows
    "remove exists_at ns = (Fails NotFound, None)
     \<and> (ns \<noteq> [] \<longrightarrow>
          wait_for_namespace_deletion exists_at ns =
            \<lparr>exit_status = 0, kubectl_calls = 1, sleeps = 0, printed = [DoesNotExist]\<rparr>)
     \<and> (\<forall>run v result. run (remove_call v) = Inr result \<and> returncode result \<noteq> 0 \<longrightarrow>
          remove_version run v =
            ([remove_call v],
             Returned \<lparr>success = False, message = ''Removal failed'',
                       error = Some (stderr result), script_output = stdout result\<rparr>))"
  using assms
  by (simp add: remove_def wait_for_namespace_deletion_def remove_version_def)

theorem remove_missing_namespace_witness:
  "remove never_existed ''n8n-v9-9-9'' = (Fails NotFound, None)
   \<and> wait_for_namespace_deletion never_existed ''n8n-v9-9-9'' =
       \<lparr>exit_status = 0, kubectl_calls = 1, sleeps = 0, printed = [DoesNotExist]\<rparr>"
proof -
  have n: "\<not> never_existed 0" by (simp add: never_existed_def)
  from remove_missing_namespace [of never_existed "''n8n-v9-9-9''"] n show ?thesis by simp
qed

subsection \<open>Restoring a snapshot\<close>

text \<open>
  C10. Every call of the restore endpoint runs \<open>restore-snapshot.sh\<close> exactly once, on
  the snapshot named in the request, with the line \<open>yes\<close> as its standard input. No
  condition on the request comes before the call, and the answer only reports the
  script's exit status.
\<close>

theorem restore_always_confirmed:
  "fst (restore_snapshot run snapshot_name) =
     [\<lparr>argv = [''/workspace/scripts/restore-snapshot.sh'', snapshot_name],
       cwd = ''/workspace'', input = Some [CHR ''y'', CHR ''e'', CHR ''s'', CHR 0x0A]\<rparr>]
   \<and> snd (restore_snapshot run snapshot_name) =
       (case run (restore_call snapshot_name) of
          Inl e \<Rightarrow> HTTPException 500 e
        | Inr result \<Rightarrow>
            Returned \<lparr>success = (returncode result = 0),
                      message = (if returncode result = 0
                                 then ''Snapshot '' @ snapshot_name @ '' restored''
                                 else ''Restore failed''),
                      error = (if returncode result = 0 then None else Some (stderr result)),
                      script_output = stdout result\<rparr>)"
  by (simp add: restore_snapshot_def restore_call_def split: sum.splits)

theorem restore_always_confirmed_witness:
  "restore_snapshot script_succeeds ''acme.sql'' =
     ([\<lparr>argv = [''/workspace/scripts/restore-snapshot.sh'', ''acme.sql''],
        cwd = ''/workspace'', input = Some [CHR ''y'', CHR ''e'', CHR ''s'', CHR 0x0A]\<rparr>],
      Returned \<lparr>success = True, message = ''Snapshot acme.sql restored'', error = None,
                script_output = ''Restore complete''\<rparr>)"
  using restore_always_confirmed [of script_succeeds "''acme.sql''"]
  by (simp add: script_succeeds_def prod_eq_iff)


end
